theory Spec2Isabelle
  imports Complex_Main "HOL-Library.Product_Lexorder"
begin

section \<open>Data model\<close>

text \<open>
  The curriculum catalog (\<open>utils/curriculumStandards\<close>) and the two recommendation
  engines: the hook \<open>useCurriculumRecommendation\<close> and the inline engine of the
  component \<open>CurriculumSelector\<close>.

  A JavaScript string is modelled as a \<open>string\<close>: the list of its code units, for the
  code units below 256. A JavaScript number is modelled as an \<open>int\<close> where the code
  only adds and compares small integers (confidence, sort keys), and as a \<open>rat\<close> where
  it divides (the analytics); \<open>NaN\<close> is \<open>None\<close>.
\<close>

datatype Priority = Primary | Secondary | Alternative

datatype Region = National | State | International

text \<open>
  \<open>interface CurriculumStandard\<close>. The fields \<open>id\<close>, \<open>name\<close>, \<open>description\<close> and
  \<open>priority\<close> carry the suffix \<open>_std\<close>. The two localized fields \<open>nameHindi\<close> and
  \<open>descriptionHindi\<close> hold Devanagari display text that no function below reads;
  they are left out of the record.
\<close>

record CurriculumStandard =
  id_std :: string
  name_std :: string
  description_std :: string
  priority_std :: Priority
  region :: Region
  grades :: "string list"
  subjects :: "string list"
  website :: string

datatype SchoolType = Government | Private | InternationalSchool

datatype Language = English | Hindi

datatype TeachingExperience = Beginner | Intermediate | Expert

datatype ClassSize = Small | MediumSize | Large

datatype ResourceAvailability = Limited | Moderate | Abundant

datatype Complexity = Low | Medium | High

text \<open>\<open>interface UserContext\<close>; an optional field that is absent is \<open>None\<close>.\<close>

record UserContext =
  location :: string
  schoolType :: SchoolType
  language :: Language
  gradeLevel :: "string option"
  previousSelections :: "string list option"
  teachingExperience :: "TeachingExperience option"
  classSize :: "ClassSize option"
  resourceAvailability :: "ResourceAvailability option"

text \<open>
  \<open>interface RecommendationContext\<close> of the selector has the first four fields of
  \<open>interface RecommendationResult\<close> of the hook, in the same order, so the second
  record extends the first.
\<close>

record RecommendationContext =
  standard :: CurriculumStandard
  confidence :: int
  reasons :: "string list"
  priority :: Priority

record RecommendationResult = RecommendationContext +
  implementationComplexity :: Complexity
  expectedOutcomes :: "string list"

section \<open>The catalog\<close>

definition grades1to10 :: "string list" where
  "grades1to10 = [''1'', ''2'', ''3'', ''4'', ''5''] @ [''6'', ''7'', ''8'', ''9'', ''10'']"

definition ncert :: CurriculumStandard where
  "ncert = \<lparr> id_std = ''ncert'',
     name_std = ''NCERT (National Council of Educational Research and Training)'',
     description_std = ''National curriculum framework for Indian schools'',
     priority_std = Primary, region = National, grades = grades1to10,
     subjects = [''mathematics'', ''science'', ''english'', ''hindi'', ''social-studies'', ''art''],
     website = ''https://ncert.nic.in'' \<rparr>"

definition cbse :: CurriculumStandard where
  "cbse = \<lparr> id_std = ''cbse'',
     name_std = ''CBSE (Central Board of Secondary Education)'',
     description_std = ''Central board curriculum for Indian schools'',
     priority_std = Primary, region = National, grades = grades1to10,
     subjects = [''mathematics'', ''science'', ''english'', ''hindi'', ''social-studies'', ''art''],
     website = ''https://cbse.gov.in'' \<rparr>"

definition icse :: CurriculumStandard where
  "icse = \<lparr> id_std = ''icse'',
     name_std = ''ICSE (Indian Certificate of Secondary Education)'',
     description_std = ''Council for Indian School Certificate Examinations curriculum'',
     priority_std = Primary, region = National, grades = grades1to10,
     subjects = [''mathematics'', ''science'', ''english'', ''hindi'', ''social-studies'', ''art''],
     website = ''https://cisce.org'' \<rparr>"

definition ib :: CurriculumStandard where
  "ib = \<lparr> id_std = ''ib'',
     name_std = ''International Baccalaureate (IB)'',
     description_std = ''Global education program with international perspective'',
     priority_std = Secondary, region = International, grades = grades1to10,
     subjects = [''mathematics'', ''science'', ''english'', ''social-studies'', ''art''],
     website = ''https://ibo.org'' \<rparr>"

definition cambridge :: CurriculumStandard where
  "cambridge = \<lparr> id_std = ''cambridge'',
     name_std = ''Cambridge International'',
     description_std = ''British curriculum with global recognition'',
     priority_std = Secondary, region = International, grades = grades1to10,
     subjects = [''mathematics'', ''science'', ''english'', ''social-studies'', ''art''],
     website = ''https://cambridgeinternational.org'' \<rparr>"

definition common_core :: CurriculumStandard where
  "common_core = \<lparr> id_std = ''common-core'',
     name_std = ''Common Core State Standards'',
     description_std = ''American educational standards'',
     priority_std = Secondary, region = International, grades = grades1to10,
     subjects = [''mathematics'', ''science'', ''english'', ''social-studies'', ''art''],
     website = ''https://corestandards.org'' \<rparr>"

definition INDIAN_CURRICULUM_STANDARDS :: "CurriculumStandard list" where
  "INDIAN_CURRICULUM_STANDARDS = [ncert, cbse, icse]"

definition INTERNATIONAL_STANDARDS :: "CurriculumStandard list" where
  "INTERNATIONAL_STANDARDS = [ib, cambridge, common_core]"

text \<open>\<open>[...INDIAN_CURRICULUM_STANDARDS, ...INTERNATIONAL_STANDARDS]\<close>, in both engines.\<close>

definition allStandards :: "CurriculumStandard list" where
  "allStandards = INDIAN_CURRICULUM_STANDARDS @ INTERNATIONAL_STANDARDS"

section \<open>The string built-ins the engines call\<close>

text \<open>
  \<open>String.prototype.toLowerCase\<close> on code units below 256: the ASCII capitals and the
  Latin-1 capitals (\<open>0xC0\<close> to \<open>0xDE\<close> without the multiplication sign \<open>0xD7\<close>) move
  up by 32, every other code unit stays.
\<close>

definition toLowerCase_char :: "char \<Rightarrow> char" where
  "toLowerCase_char c =
     (let n = (of_char c :: nat)
      in if (65 \<le> n \<and> n \<le> 90) \<or> (192 \<le> n \<and> n \<le> 222 \<and> n \<noteq> 215)
         then char_of (n + 32) else c)"

definition toLowerCase :: "string \<Rightarrow> string" where
  "toLowerCase s = map toLowerCase_char s"

text \<open>\<open>String.prototype.includes\<close>: the argument occurs as a contiguous substring.\<close>

fun startsWith :: "string \<Rightarrow> string \<Rightarrow> bool" where
  "startsWith s [] = True"
| "startsWith [] (p # ps) = False"
| "startsWith (c # cs) (p # ps) = (c = p \<and> startsWith cs ps)"

fun includes_str :: "string \<Rightarrow> string \<Rightarrow> bool" where
  "includes_str [] p = (p = [])"
| "includes_str (c # cs) p = (startsWith (c # cs) p \<or> includes_str cs p)"

text \<open>
  \<open>parseInt(string)\<close> with no radix, after ECMA-262: leading white space is skipped
  (among the code units below 256: TAB, LF, VT, FF, CR, SP, NBSP), one sign is read,
  a prefix \<open>0x\<close> or \<open>0X\<close> switches to radix 16, and the longest run of digits of the
  radix is the value. An empty run is \<open>NaN\<close>, here \<open>None\<close>. The value is kept exact:
  the engines only compare it with 5 and 9, and rounding to a double is monotone and
  leaves 5 and 9 fixed, so every such comparison has the same outcome.
\<close>

definition isWhiteSpace :: "char \<Rightarrow> bool" where
  "isWhiteSpace c = (let n = (of_char c :: nat) in (9 \<le> n \<and> n \<le> 13) \<or> n = 32 \<or> n = 160)"

definition digitValue :: "nat \<Rightarrow> char \<Rightarrow> nat option" where
  "digitValue R c =
     (let n = (of_char c :: nat);
          v = (if 48 \<le> n \<and> n \<le> 57 then Some (n - 48)
               else if 97 \<le> n \<and> n \<le> 122 then Some (n - 87)
               else if 65 \<le> n \<and> n \<le> 90 then Some (n - 55)
               else None)
      in case v of None \<Rightarrow> None | Some d \<Rightarrow> if d < R then Some d else None)"

definition isDigit :: "nat \<Rightarrow> char \<Rightarrow> bool" where
  "isDigit R c = (digitValue R c \<noteq> None)"

definition digitsValue :: "nat \<Rightarrow> string \<Rightarrow> nat" where
  "digitsValue R Z = foldl (\<lambda>acc c. acc * R + (case digitValue R c of None \<Rightarrow> 0 | Some d \<Rightarrow> d)) 0 Z"

definition parseInt :: "string \<Rightarrow> int option" where
  "parseInt s =
     (let S = dropWhile isWhiteSpace s;
          sign = (case S of [] \<Rightarrow> (1::int) | c # cs \<Rightarrow> if c = CHR ''-'' then - 1 else 1);
          S1 = (case S of [] \<Rightarrow> S | c # cs \<Rightarrow> if c = CHR ''+'' \<or> c = CHR ''-'' then cs else S);
          hex = (case S1 of a # b # cs \<Rightarrow> a = CHR ''0'' \<and> (b = CHR ''x'' \<or> b = CHR ''X'') | _ \<Rightarrow> False);
          R = (if hex then 16 else 10);
          S2 = (if hex then drop 2 S1 else S1);
          Z = takeWhile (isDigit R) S2
      in if Z = [] then None else Some (sign * int (digitsValue R Z)))"

section \<open>The hook: analyzeStandardFit\<close>

text \<open>
  The local variables of \<open>analyzeStandardFit\<close> are the fields of the result it
  returns, so the running state is a \<open>RecommendationResult\<close>. The function body is six
  commented blocks executed in sequence; each is one definition, in source order.
\<close>

definition initialFit :: "CurriculumStandard \<Rightarrow> RecommendationResult" where
  "initialFit std = \<lparr> standard = std, confidence = 0, reasons = [], priority = Alternative,
     implementationComplexity = Medium, expectedOutcomes = [] \<rparr>"

text \<open>Geographic and cultural alignment.\<close>

definition geographicAlignment ::
  "CurriculumStandard \<Rightarrow> UserContext \<Rightarrow> RecommendationResult \<Rightarrow> RecommendationResult" where
  "geographicAlignment std context r =
     (if includes_str (toLowerCase (location context)) ''india'' \<or> location context = ''in'' then
        (if region std = National then
           r\<lparr> confidence := confidence r + 35,
              reasons := reasons r @ [''Designed specifically for Indian educational ecosystem''],
              priority := Primary,
              implementationComplexity := Low,
              expectedOutcomes := expectedOutcomes r @
                [''Seamless integration with existing Indian school systems''] \<rparr>
         else
           r\<lparr> confidence := confidence r + 15,
              reasons := reasons r @ [''Provides valuable international perspective''],
              priority := Secondary,
              implementationComplexity := High,
              expectedOutcomes := expectedOutcomes r @
                [''Enhanced global awareness for students''] \<rparr>)
      else
        (if region std = International then
           r\<lparr> confidence := confidence r + 30,
              reasons := reasons r @ [''International standard suitable for global schools''],
              priority := Primary \<rparr>
         else r))"

text \<open>School type alignment.\<close>

definition schoolTypeAlignment ::
  "CurriculumStandard \<Rightarrow> UserContext \<Rightarrow> RecommendationResult \<Rightarrow> RecommendationResult" where
  "schoolTypeAlignment std context r =
     (case schoolType context of
        Government \<Rightarrow>
          (if id_std std = ''ncert'' then
             r\<lparr> confidence := confidence r + 25,
                reasons := reasons r @ [''NCERT is the official framework for government schools''],
                expectedOutcomes := expectedOutcomes r @
                  [''Direct alignment with government education policies''] \<rparr>
           else if id_std std = ''cbse'' then
             r\<lparr> confidence := confidence r + 15,
                reasons := reasons r @ [''CBSE builds upon NCERT foundation''] \<rparr>
           else r)
      | Private \<Rightarrow>
          (if id_std std = ''cbse'' \<or> id_std std = ''icse'' then
             r\<lparr> confidence := confidence r + 20,
                reasons := reasons r @
                  [''Widely adopted by private schools for board exam preparation''],
                expectedOutcomes := expectedOutcomes r @ [''Strong board exam performance''] \<rparr>
           else r)
      | InternationalSchool \<Rightarrow>
          (if id_std std = ''ib'' \<or> id_std std = ''cambridge'' then
             r\<lparr> confidence := confidence r + 25,
                reasons := reasons r @ [''Internationally recognized for student mobility''],
                implementationComplexity := High,
                expectedOutcomes := expectedOutcomes r @
                  [''Global university admission advantages''] \<rparr>
           else r))"

text \<open>Language preference alignment.\<close>

definition languageAlignment ::
  "CurriculumStandard \<Rightarrow> UserContext \<Rightarrow> RecommendationResult \<Rightarrow> RecommendationResult" where
  "languageAlignment std context r =
     (case language context of
        Hindi \<Rightarrow>
          (if region std = National then
             r\<lparr> confidence := confidence r + 20,
                reasons := reasons r @
                  [''Strong Hindi language support and cultural integration''],
                expectedOutcomes := expectedOutcomes r @
                  [''Better student comprehension in native language''] \<rparr>
           else r)
      | English \<Rightarrow>
          (if region std = International then
             r\<lparr> confidence := confidence r + 15,
                reasons := reasons r @
                  [''English-medium instruction with global perspective''] \<rparr>
           else r))"

text \<open>
  Grade level considerations. \<open>if (context.gradeLevel)\<close> holds for a string that is
  present and not empty. A comparison with \<open>NaN\<close> is false, so for \<open>parseInt = None\<close>
  neither branch is taken.
\<close>

definition numLe :: "int option \<Rightarrow> int \<Rightarrow> bool" where
  "numLe x k = (case x of None \<Rightarrow> False | Some n \<Rightarrow> n \<le> k)"

definition numGe :: "int option \<Rightarrow> int \<Rightarrow> bool" where
  "numGe x k = (case x of None \<Rightarrow> False | Some n \<Rightarrow> n \<ge> k)"

definition gradeLevelConsiderations ::
  "CurriculumStandard \<Rightarrow> UserContext \<Rightarrow> RecommendationResult \<Rightarrow> RecommendationResult" where
  "gradeLevelConsiderations std context r =
     (case gradeLevel context of
        None \<Rightarrow> r
      | Some g \<Rightarrow>
          if g = [] then r
          else
            (let gradeNum = parseInt g
             in if numLe gradeNum 5 \<and> id_std std = ''ncert'' then
                  r\<lparr> confidence := confidence r + 10,
                     reasons := reasons r @
                       [''NCERT provides excellent foundation for primary education''],
                     expectedOutcomes := expectedOutcomes r @
                       [''Strong conceptual foundation building''] \<rparr>
                else if numGe gradeNum 9 \<and> (id_std std = ''cbse'' \<or> id_std std = ''icse'') then
                  r\<lparr> confidence := confidence r + 10,
                     reasons := reasons r @ [''Optimized for board exam preparation''],
                     expectedOutcomes := expectedOutcomes r @
                       [''Enhanced board exam performance''] \<rparr>
                else r))"

text \<open>Teaching experience factor.\<close>

definition teachingExperienceFactor ::
  "CurriculumStandard \<Rightarrow> UserContext \<Rightarrow> RecommendationResult \<Rightarrow> RecommendationResult" where
  "teachingExperienceFactor std context r =
     (if teachingExperience context = Some Beginner \<and> id_std std = ''ncert'' then
        r\<lparr> confidence := confidence r + 5,
           reasons := reasons r @ [''NCERT provides comprehensive teacher support materials''],
           implementationComplexity := Low \<rparr>
      else if teachingExperience context = Some Expert \<and> region std = International then
        r\<lparr> confidence := confidence r + 5,
           reasons := reasons r @
             [''International standards offer advanced pedagogical approaches''] \<rparr>
      else r)"

text \<open>Resource availability factor.\<close>

definition resourceAvailabilityFactor ::
  "CurriculumStandard \<Rightarrow> UserContext \<Rightarrow> RecommendationResult \<Rightarrow> RecommendationResult" where
  "resourceAvailabilityFactor std context r =
     (if resourceAvailability context = Some Limited \<and> region std = National then
        r\<lparr> confidence := confidence r + 5,
           reasons := reasons r @ [''Designed for diverse resource environments in India''],
           implementationComplexity := Low \<rparr>
      else if resourceAvailability context = Some Abundant \<and> region std = International then
        r\<lparr> confidence := confidence r + 5,
           reasons := reasons r @
             [''Can leverage advanced resources for international curriculum''] \<rparr>
      else r)"

text \<open>The six blocks in sequence, before the final \<open>Math.min(confidence, 100)\<close>.\<close>

definition accumulatedFit :: "CurriculumStandard \<Rightarrow> UserContext \<Rightarrow> RecommendationResult" where
  "accumulatedFit std context =
     resourceAvailabilityFactor std context
       (teachingExperienceFactor std context
         (gradeLevelConsiderations std context
           (languageAlignment std context
             (schoolTypeAlignment std context
               (geographicAlignment std context (initialFit std))))))"

definition analyzeStandardFit :: "CurriculumStandard \<Rightarrow> UserContext \<Rightarrow> RecommendationResult" where
  "analyzeStandardFit std context =
     (let r = accumulatedFit std context in r\<lparr> confidence := min (confidence r) 100 \<rparr>)"

section \<open>The hook: generateRecommendations\<close>

text \<open>
  \<open>Array.prototype.sort(compareFn)\<close> is a built-in. ECMA-262 (from the 2019 edition)
  requires it to be stable, and for a comparator that is consistent (as both
  comparators below are) the sorted order is then unique. It is modelled by the stable
  insertion sort: \<open>compareFn(x, y) \<le> 0\<close> means that \<open>x\<close> may stay before \<open>y\<close>.
\<close>

fun insertSorted :: "('a \<Rightarrow> 'a \<Rightarrow> int) \<Rightarrow> 'a \<Rightarrow> 'a list \<Rightarrow> 'a list" where
  "insertSorted compareFn x [] = [x]"
| "insertSorted compareFn x (y # ys) =
     (if compareFn x y \<le> 0 then x # y # ys else y # insertSorted compareFn x ys)"

definition Array_sort :: "('a \<Rightarrow> 'a \<Rightarrow> int) \<Rightarrow> 'a list \<Rightarrow> 'a list" where
  "Array_sort compareFn xs = foldr (insertSorted compareFn) xs []"

definition priorityWeight :: "Priority \<Rightarrow> int" where
  "priorityWeight p = (case p of Primary \<Rightarrow> 100 | Secondary \<Rightarrow> 50 | Alternative \<Rightarrow> 10)"

text \<open>The comparator passed to \<open>results.sort\<close> in the hook.\<close>

definition compareByScore :: "RecommendationResult \<Rightarrow> RecommendationResult \<Rightarrow> int" where
  "compareByScore a b =
     (let aScore = confidence a + priorityWeight (priority a);
          bScore = confidence b + priorityWeight (priority b)
      in bScore - aScore)"

text \<open>
  The \<open>for\<close> loop over \<open>allStandards\<close> pushes every analysis that reaches the
  threshold; the artificial delay and the \<open>isAnalyzing\<close> flag do not touch the result.
\<close>

definition pushIfConfident ::
  "UserContext \<Rightarrow> RecommendationResult list \<Rightarrow> CurriculumStandard \<Rightarrow> RecommendationResult list" where
  "pushIfConfident context results std =
     (let analysis = analyzeStandardFit std context
      in if confidence analysis \<ge> 30 then results @ [analysis] else results)"

definition generateRecommendations :: "UserContext \<Rightarrow> RecommendationResult list" where
  "generateRecommendations context =
     (let results = foldl (pushIfConfident context) [] allStandards
      in Array_sort compareByScore results)"

section \<open>The hook: generateAnalytics\<close>

datatype js_error = TypeError

record RecommendationAnalytics =
  totalRecommendations :: nat
  averageConfidence :: "rat option"
  topCategory :: string
  userSatisfactionPrediction :: "rat option"
  implementationTimeEstimate :: string

text \<open>
  \<open>categoryCount\<close> is an object used as a dictionary; \<open>Object.entries\<close> lists its keys
  in insertion order, so it is an association list.
\<close>

fun countCategory :: "string \<Rightarrow> (string \<times> nat) list \<Rightarrow> (string \<times> nat) list" where
  "countCategory category [] = [(category, 1)]"
| "countCategory category ((k, n) # acc) =
     (if k = category then (k, n + 1) # acc else (k, n) # countCategory category acc)"

definition categoryOf :: "RecommendationResult \<Rightarrow> string" where
  "categoryOf rec = (if region (standard rec) = National then ''Indian'' else ''International'')"

text \<open>
  \<open>sum / totalRecommendations\<close>: for an empty list this is \<open>0 / 0\<close>, which is \<open>NaN\<close>.
  \<open>Math.min\<close> of \<open>NaN\<close> is \<open>NaN\<close>.
\<close>

definition average :: "int \<Rightarrow> nat \<Rightarrow> rat option" where
  "average x n = (if n = 0 then None else Some (of_int x / of_nat n))"

text \<open>
  \<open>Object.entries(categoryCount).reduce(f)\<close> has no initial value: on an empty array it
  throws a \<open>TypeError\<close>, otherwise it folds from the first entry.
  \<open>recommendations[0]?.implementationComplexity\<close> is \<open>undefined\<close> for an empty list.
\<close>

definition generateAnalytics :: "RecommendationResult list \<Rightarrow> js_error + RecommendationAnalytics" where
  "generateAnalytics recommendations =
     (let totalRecommendations = length recommendations;
          averageConfidence =
            average (foldl (\<lambda>acc rec. acc + confidence rec) 0 recommendations) totalRecommendations;
          categoryCount = foldl (\<lambda>acc rec. countCategory (categoryOf rec) acc) [] recommendations
      in case categoryCount of
           [] \<Rightarrow> Inl TypeError
         | e # es \<Rightarrow>
             Inr \<lparr> totalRecommendations = totalRecommendations,
                   averageConfidence = averageConfidence,
                   topCategory = fst (foldl (\<lambda>a b. if snd a > snd b then a else b) e es),
                   userSatisfactionPrediction = map_option (\<lambda>m. min (m + 10) 95) averageConfidence,
                   implementationTimeEstimate =
                     (case recommendations of
                        [] \<Rightarrow> ''6-8 weeks''
                      | first # rest \<Rightarrow>
                          if implementationComplexity first = Low then ''1-2 weeks''
                          else if implementationComplexity first = Medium then ''3-4 weeks''
                          else ''6-8 weeks'') \<rparr>)"

section \<open>The hook: state and lookups\<close>

text \<open>The four \<open>useState\<close> cells of the hook.\<close>

record HookState =
  recommendations :: "RecommendationResult list"
  analytics :: "RecommendationAnalytics option"
  isAnalyzing :: bool
  selectedStandard :: "CurriculumStandard option"

definition initialState :: HookState where
  "initialState = \<lparr> recommendations = [], analytics = None, isAnalyzing = False,
     selectedStandard = None \<rparr>"

text \<open>
  \<open>runAnalysis\<close>, the effect run on every change of the context. The result set is
  stored before the analytics are computed, so a throw in \<open>generateAnalytics\<close> leaves
  the stored result set in place; the second component is the error thrown, if any.
\<close>

definition runAnalysis :: "HookState \<Rightarrow> UserContext \<Rightarrow> HookState \<times> js_error option" where
  "runAnalysis st userContext =
     (let results = generateRecommendations userContext;
          st1 = st\<lparr> isAnalyzing := False, recommendations := results \<rparr>
      in case generateAnalytics results of
           Inl e \<Rightarrow> (st1, Some e)
         | Inr a \<Rightarrow>
             (let st2 = st1\<lparr> analytics := Some a \<rparr>
              in case results of
                   [] \<Rightarrow> (st2, None)
                 | first # rest \<Rightarrow>
                     if selectedStandard st = None
                     then (st2\<lparr> selectedStandard := Some (standard first) \<rparr>, None)
                     else (st2, None)))"

text \<open>\<open>recommendations.find(...)\<close>, then \<open>recommendation?.reasons || []\<close>.\<close>

definition getRecommendationReasoning :: "HookState \<Rightarrow> string \<Rightarrow> string list" where
  "getRecommendationReasoning st standardId =
     (case find (\<lambda>r. id_std (standard r) = standardId) (recommendations st) of
        None \<Rightarrow> []
      | Some recommendation \<Rightarrow> reasons recommendation)"

section \<open>The selector: CurriculumSelector\<close>

text \<open>
  The props the engine of the selector reads, after the defaults of the destructuring
  (\<open>userLocation = 'india'\<close>, \<open>schoolType = 'government'\<close>, \<open>language = 'english'\<close>).
\<close>

record SelectorProps =
  userLocation :: string
  schoolType_sel :: SchoolType
  language_sel :: Language
  gradeLevel_sel :: "string option"

definition initialScore :: "CurriculumStandard \<Rightarrow> RecommendationContext" where
  "initialScore std = \<lparr> standard = std, confidence = 0, reasons = [], priority = Alternative \<rparr>"

text \<open>Location-based scoring.\<close>

definition locationScoring ::
  "CurriculumStandard \<Rightarrow> SelectorProps \<Rightarrow> RecommendationContext \<Rightarrow> RecommendationContext" where
  "locationScoring std props r =
     (if includes_str (toLowerCase (userLocation props)) ''india'' \<or> userLocation props = ''in'' then
        (if region std = National then
           r\<lparr> confidence := confidence r + 40,
              reasons := reasons r @ [''Designed specifically for Indian educational system''],
              priority := Primary \<rparr>
         else
           r\<lparr> confidence := confidence r + 10,
              reasons := reasons r @ [''International perspective valuable for global awareness''],
              priority := Secondary \<rparr>)
      else
        (if region std = International then
           r\<lparr> confidence := confidence r + 35,
              reasons := reasons r @ [''International standard suitable for global schools''],
              priority := Primary \<rparr>
         else r))"

text \<open>School type scoring.\<close>

definition schoolTypeScoring ::
  "CurriculumStandard \<Rightarrow> SelectorProps \<Rightarrow> RecommendationContext \<Rightarrow> RecommendationContext" where
  "schoolTypeScoring std props r =
     (if schoolType_sel props = Government \<and> id_std std = ''ncert'' then
        r\<lparr> confidence := confidence r + 30,
           reasons := reasons r @ [''NCERT is the foundation for government school curriculum''] \<rparr>
      else if schoolType_sel props = Private \<and> id_std std = ''cbse'' then
        r\<lparr> confidence := confidence r + 25,
           reasons := reasons r @ [''CBSE widely adopted by private schools in India''] \<rparr>
      else if schoolType_sel props = InternationalSchool
              \<and> (id_std std = ''ib'' \<or> id_std std = ''cambridge'') then
        r\<lparr> confidence := confidence r + 30,
           reasons := reasons r @ [''Internationally recognized curriculum for global mobility''] \<rparr>
      else r)"

text \<open>Language preference scoring.\<close>

definition languageScoring ::
  "CurriculumStandard \<Rightarrow> SelectorProps \<Rightarrow> RecommendationContext \<Rightarrow> RecommendationContext" where
  "languageScoring std props r =
     (if language_sel props = Hindi \<and> region std = National then
        r\<lparr> confidence := confidence r + 15,
           reasons := reasons r @ [''Strong Hindi language support and cultural integration''] \<rparr>
      else if language_sel props = English \<and> region std = International then
        r\<lparr> confidence := confidence r + 10,
           reasons := reasons r @ [''English-medium instruction with global perspective''] \<rparr>
      else r)"

text \<open>Grade level considerations.\<close>

definition gradeLevelScoring ::
  "CurriculumStandard \<Rightarrow> SelectorProps \<Rightarrow> RecommendationContext \<Rightarrow> RecommendationContext" where
  "gradeLevelScoring std props r =
     (case gradeLevel_sel props of
        None \<Rightarrow> r
      | Some g \<Rightarrow>
          if g = [] then r
          else
            (let gradeNum = parseInt g
             in if numLe gradeNum 5 \<and> id_std std = ''ncert'' then
                  r\<lparr> confidence := confidence r + 10,
                     reasons := reasons r @
                       [''NCERT provides excellent foundation for primary grades''] \<rparr>
                else if numGe gradeNum 9 \<and> (id_std std = ''cbse'' \<or> id_std std = ''icse'') then
                  r\<lparr> confidence := confidence r + 15,
                     reasons := reasons r @
                       [''Strong board exam preparation for secondary grades''] \<rparr>
                else r))"

text \<open>The body of the \<open>forEach\<close> callback up to the inclusion test.\<close>

definition scoreStandard :: "CurriculumStandard \<Rightarrow> SelectorProps \<Rightarrow> RecommendationContext" where
  "scoreStandard std props =
     gradeLevelScoring std props
       (languageScoring std props
         (schoolTypeScoring std props
           (locationScoring std props (initialScore std))))"

text \<open>The inclusion test reads the sum; the pushed object holds \<open>Math.min(confidence, 100)\<close>.\<close>

definition pushIfIncluded ::
  "SelectorProps \<Rightarrow> RecommendationContext list \<Rightarrow> CurriculumStandard \<Rightarrow> RecommendationContext list" where
  "pushIfIncluded props contextualRecommendations std =
     (let r = scoreStandard std props
      in if confidence r \<ge> 20
         then contextualRecommendations @ [r\<lparr> confidence := min (confidence r) 100 \<rparr>]
         else contextualRecommendations)"

definition priorityOrder :: "Priority \<Rightarrow> int" where
  "priorityOrder p = (case p of Primary \<Rightarrow> 3 | Secondary \<Rightarrow> 2 | Alternative \<Rightarrow> 1)"

text \<open>The comparator passed to \<open>contextualRecommendations.sort\<close> in the selector.\<close>

definition compareByPriority :: "RecommendationContext \<Rightarrow> RecommendationContext \<Rightarrow> int" where
  "compareByPriority a b =
     (if priority a \<noteq> priority b
      then priorityOrder (priority b) - priorityOrder (priority a)
      else confidence b - confidence a)"

text \<open>
  \<open>generateRecommendations\<close> of the selector: the list it hands to
  \<open>setRecommendations\<close>.
\<close>

definition generateRecommendations_sel :: "SelectorProps \<Rightarrow> RecommendationContext list" where
  "generateRecommendations_sel props =
     (let contextualRecommendations = foldl (pushIfIncluded props) [] allStandards
      in Array_sort compareByPriority contextualRecommendations)"

section \<open>Vocabulary of the properties\<close>

text \<open>
  Every block of \<open>analyzeStandardFit\<close> either leaves the state alone or adds between 5
  and 35 to the confidence and appends one reason; \<open>fitInv\<close> is the invariant this
  gives.
\<close>

definition fitInv :: "RecommendationResult \<Rightarrow> bool" where
  "fitInv r = (5 * int (length (reasons r)) \<le> confidence r
               \<and> confidence r \<le> 35 * int (length (reasons r)))"

text \<open>The sort key of the hook: \<open>aScore\<close> and \<open>bScore\<close> of its comparator.\<close>

definition compositeScore :: "RecommendationResult \<Rightarrow> int" where
  "compositeScore r = confidence r + priorityWeight (priority r)"




text \<open>The reasons one block of \<open>analyzeStandardFit\<close> appends, run on its own.\<close>

definition blockReasons ::
  "(CurriculumStandard \<Rightarrow> UserContext \<Rightarrow> RecommendationResult \<Rightarrow> RecommendationResult)
     \<Rightarrow> CurriculumStandard \<Rightarrow> UserContext \<Rightarrow> string list" where
  "blockReasons block s c = reasons (block s c (initialFit s))"

text \<open>
  The order the comparator of the selector induces: the key, compared
  lexicographically, and the relation between an earlier and a later result.
\<close>

definition selectorKey :: "RecommendationContext \<Rightarrow> int \<times> int" where
  "selectorKey r = (- priorityOrder (priority r), - confidence r)"

definition tierThenConfidence :: "RecommendationContext \<Rightarrow> RecommendationContext \<Rightarrow> bool" where
  "tierThenConfidence a b =
     (priorityOrder (priority a) > priorityOrder (priority b)
      \<or> (priority a = priority b \<and> confidence a \<ge> confidence b))"

text \<open>The two example contexts of the specification; fields not given are absent.\<close>

definition exampleIndia :: UserContext where
  "exampleIndia = \<lparr> location = ''india'', schoolType = Government, language = Hindi,
     gradeLevel = Some ''3'', previousSelections = None, teachingExperience = None,
     classSize = None, resourceAvailability = None \<rparr>"

definition exampleUsa :: UserContext where
  "exampleUsa = \<lparr> location = ''usa'', schoolType = InternationalSchool, language = English,
     gradeLevel = None, previousSelections = None, teachingExperience = None,
     classSize = None, resourceAvailability = None \<rparr>"

text \<open>
  A context of the hook in which the international standards score 25, and two sets of
  props of the selector: its defaults, and an international school in India.
\<close>

definition exampleExpert :: UserContext where
  "exampleExpert = \<lparr> location = ''india'', schoolType = Government, language = Hindi,
     gradeLevel = None, previousSelections = None, teachingExperience = Some Expert,
     classSize = None, resourceAvailability = Some Abundant \<rparr>"

definition defaultProps :: SelectorProps where
  "defaultProps = \<lparr> userLocation = ''india'', schoolType_sel = Government,
     language_sel = English, gradeLevel_sel = None \<rparr>"

definition exampleMixed :: SelectorProps where
  "exampleMixed = \<lparr> userLocation = ''india'', schoolType_sel = InternationalSchool,
     language_sel = English, gradeLevel_sel = None \<rparr>"

section \<open>Confidence bounds\<close>

lemma fitInv_initialFit: "fitInv (initialFit s)"
  by (simp add: fitInv_def initialFit_def)

lemma fitInv_geographicAlignment: "fitInv r \<Longrightarrow> fitInv (geographicAlignment s c r)"
  by (simp add: fitInv_def geographicAlignment_def)

lemma fitInv_schoolTypeAlignment: "fitInv r \<Longrightarrow> fitInv (schoolTypeAlignment s c r)"
  by (simp add: fitInv_def schoolTypeAlignment_def split: SchoolType.split)

lemma fitInv_languageAlignment: "fitInv r \<Longrightarrow> fitInv (languageAlignment s c r)"
  by (simp add: fitInv_def languageAlignment_def split: Language.split)

lemma fitInv_gradeLevelConsiderations: "fitInv r \<Longrightarrow> fitInv (gradeLevelConsiderations s c r)"
  by (simp add: fitInv_def gradeLevelConsiderations_def Let_def split: option.split)

lemma fitInv_teachingExperienceFactor: "fitInv r \<Longrightarrow> fitInv (teachingExperienceFactor s c r)"
  by (simp add: fitInv_def teachingExperienceFactor_def)

lemma fitInv_resourceAvailabilityFactor: "fitInv r \<Longrightarrow> fitInv (resourceAvailabilityFactor s c r)"
  by (simp add: fitInv_def resourceAvailabilityFactor_def)

lemma fitInv_accumulatedFit: "fitInv (accumulatedFit s c)"
  unfolding accumulatedFit_def
  by (intro fitInv_resourceAvailabilityFactor fitInv_teachingExperienceFactor
      fitInv_gradeLevelConsiderations fitInv_languageAlignment fitInv_schoolTypeAlignment
      fitInv_geographicAlignment fitInv_initialFit)

text \<open>
  C2. For every standard and every context, the confidence returned by
  \<open>analyzeStandardFit\<close> is an integer between 0 and 100.
\<close>

theorem analyzeStandardFit_confidence_range:
  "0 \<le> confidence (analyzeStandardFit s c) \<and> confidence (analyzeStandardFit s c) \<le> 100"
  using fitInv_accumulatedFit [of s c]
  by (simp add: analyzeStandardFit_def Let_def fitInv_def)

section \<open>The sort of the hook\<close>

lemma insertSorted_insort_key:
  assumes "\<And>a b. compareFn a b \<le> 0 \<longleftrightarrow> key a \<le> key b"
  shows "insertSorted compareFn x ys = insort_key key x ys"
  by (induction ys) (simp_all add: assms)

lemma Array_sort_sort_key:
  assumes "\<And>a b. compareFn a b \<le> 0 \<longleftrightarrow> key a \<le> key b"
  shows "Array_sort compareFn xs = sort_key key xs"
  by (induction xs) (simp_all add: Array_sort_def sort_key_def insertSorted_insort_key [OF assms])



lemma foldl_pushIfConfident:
  "foldl (pushIfConfident c) acc stds =
     acc @ filter (\<lambda>r. 30 \<le> confidence r) (map (\<lambda>s. analyzeStandardFit s c) stds)"
  by (induction stds arbitrary: acc) (simp_all add: pushIfConfident_def Let_def)

lemma compareByScore_key:
  "compareByScore a b \<le> 0 \<longleftrightarrow> - compositeScore a \<le> - compositeScore b"
  unfolding compareByScore_def compositeScore_def Let_def by linarith

lemma generateRecommendations_eq:
  "generateRecommendations c =
     sort_key (\<lambda>r. - compositeScore r)
       (filter (\<lambda>r. 30 \<le> confidence r) (map (\<lambda>s. analyzeStandardFit s c) allStandards))"
  by (simp add: generateRecommendations_def Let_def foldl_pushIfConfident
      Array_sort_sort_key [of compareByScore "\<lambda>r. - compositeScore r", OF compareByScore_key])

lemma standard_blocks:
  "standard (geographicAlignment s c r) = standard r"
  "standard (schoolTypeAlignment s c r) = standard r"
  "standard (languageAlignment s c r) = standard r"
  "standard (gradeLevelConsiderations s c r) = standard r"
  "standard (teachingExperienceFactor s c r) = standard r"
  "standard (resourceAvailabilityFactor s c r) = standard r"
  by (simp_all add: resourceAvailabilityFactor_def Let_def teachingExperienceFactor_def
      gradeLevelConsiderations_def languageAlignment_def schoolTypeAlignment_def
      geographicAlignment_def split: option.split SchoolType.split Language.split)

lemma standard_analyzeStandardFit: "standard (analyzeStandardFit s c) = s"
  by (simp add: analyzeStandardFit_def Let_def accumulatedFit_def standard_blocks initialFit_def)





lemma set_generateRecommendations:
  "set (generateRecommendations c) =
     {r \<in> (\<lambda>s. analyzeStandardFit s c) ` set allStandards. 30 \<le> confidence r}"
  by (simp add: generateRecommendations_eq)

lemma generateRecommendations_exampleIndia:
  "generateRecommendations exampleIndia =
     [analyzeStandardFit ncert exampleIndia, analyzeStandardFit cbse exampleIndia,
      analyzeStandardFit icse exampleIndia]"
  by code_simp

lemma generateRecommendations_exampleUsa:
  "generateRecommendations exampleUsa =
     [analyzeStandardFit ib exampleUsa, analyzeStandardFit cambridge exampleUsa,
      analyzeStandardFit common_core exampleUsa]"
  by code_simp




text \<open>
  C4. For the context with location india, school type government, language hindi and
  grade level 3, the first recommendation is the standard with id ncert, with priority
  primary.
\<close>

theorem generateRecommendations_exampleIndia_first:
  "map (\<lambda>r. (id_std (standard r), priority r)) (take 1 (generateRecommendations exampleIndia)) =
     [(''ncert'', Primary)]"
  by code_simp

text \<open>
  C5. For the context with location usa, school type international and language
  english, no result for ib or cambridge stands at or after the first result of a
  national standard (there is none), and both ib and cambridge are in the list.
\<close>

theorem generateRecommendations_exampleUsa_international_first:
  "filter (\<lambda>r. id_std (standard r) \<in> set [''ib'', ''cambridge''])
     (dropWhile (\<lambda>r. region (standard r) \<noteq> National) (generateRecommendations exampleUsa)) = [] \<and>
   map (\<lambda>r. id_std (standard r))
     (filter (\<lambda>r. id_std (standard r) \<in> set [''ib'', ''cambridge''])
        (generateRecommendations exampleUsa)) = [''ib'', ''cambridge''] \<and>
   map (\<lambda>r. (id_std (standard r), region (standard r))) (generateRecommendations exampleUsa) =
     [(''ib'', International), (''cambridge'', International), (''common-core'', International)]"
  by code_simp

section \<open>Reasons and confidence\<close>

lemma confidence_pos_iff_reasons:
  "0 < confidence (analyzeStandardFit s c) \<longleftrightarrow> reasons (analyzeStandardFit s c) \<noteq> []"
  using fitInv_accumulatedFit [of s c]
  by (cases "reasons (accumulatedFit s c)") (simp_all add: analyzeStandardFit_def Let_def fitInv_def)

text \<open>
  C9. For every standard and every context, the confidence returned by
  \<open>analyzeStandardFit\<close> is positive exactly when the list of reasons is not empty;
  so every result that \<open>generateRecommendations\<close> returns carries a reason.
\<close>

theorem confidence_positive_iff_some_reason:
  "(0 < confidence (analyzeStandardFit s c) \<longleftrightarrow> reasons (analyzeStandardFit s c) \<noteq> []) \<and>
   (\<forall>r \<in> set (generateRecommendations c). reasons r \<noteq> [])"
proof
  show "0 < confidence (analyzeStandardFit s c) \<longleftrightarrow> reasons (analyzeStandardFit s c) \<noteq> []"
    by (rule confidence_pos_iff_reasons)
  show "\<forall>r \<in> set (generateRecommendations c). reasons r \<noteq> []"
  proof
    fix r assume "r \<in> set (generateRecommendations c)"
    then obtain t where r: "r = analyzeStandardFit t c" and "30 \<le> confidence r"
      by (auto simp: set_generateRecommendations)
    then have "0 < confidence (analyzeStandardFit t c)" by simp
    then show "reasons r \<noteq> []" using confidence_pos_iff_reasons [of t c] r by simp
  qed
qed

theorem confidence_positive_iff_some_reason_witness:
  "analyzeStandardFit ib exampleUsa \<in> set (generateRecommendations exampleUsa) \<and>
   reasons (analyzeStandardFit ib exampleUsa) \<noteq> [] \<and>
   0 < confidence (analyzeStandardFit ib exampleUsa)"
  using confidence_positive_iff_some_reason [of ib exampleUsa]
  unfolding generateRecommendations_exampleUsa by simp

section \<open>An unparseable grade level\<close>

lemma blocks_ignore_gradeLevel:
  "geographicAlignment s (c\<lparr>gradeLevel := g\<rparr>) r = geographicAlignment s c r"
  "schoolTypeAlignment s (c\<lparr>gradeLevel := g\<rparr>) r = schoolTypeAlignment s c r"
  "languageAlignment s (c\<lparr>gradeLevel := g\<rparr>) r = languageAlignment s c r"
  "teachingExperienceFactor s (c\<lparr>gradeLevel := g\<rparr>) r = teachingExperienceFactor s c r"
  "resourceAvailabilityFactor s (c\<lparr>gradeLevel := g\<rparr>) r = resourceAvailabilityFactor s c r"
  by (simp_all add: geographicAlignment_def schoolTypeAlignment_def languageAlignment_def
      teachingExperienceFactor_def resourceAvailabilityFactor_def)

lemma gradeLevelConsiderations_absent:
  "gradeLevelConsiderations s (c\<lparr>gradeLevel := None\<rparr>) r = r"
  by (simp add: gradeLevelConsiderations_def)

lemma gradeLevelConsiderations_unparseable:
  "parseInt g = None \<Longrightarrow> gradeLevelConsiderations s (c\<lparr>gradeLevel := Some g\<rparr>) r = r"
  by (simp add: gradeLevelConsiderations_def numLe_def numGe_def)

lemma analyzeStandardFit_unparseable:
  "parseInt g = None \<Longrightarrow>
   analyzeStandardFit s (c\<lparr>gradeLevel := Some g\<rparr>) = analyzeStandardFit s (c\<lparr>gradeLevel := None\<rparr>)"
  by (simp add: analyzeStandardFit_def accumulatedFit_def blocks_ignore_gradeLevel
      gradeLevelConsiderations_absent gradeLevelConsiderations_unparseable)

lemma parseInt_abc: "parseInt ''abc'' = None"
  by code_simp

text \<open>
  C7. For every context whose grade level is a string on which \<open>parseInt\<close> fails
  (returns \<open>NaN\<close>), the grade-level block leaves the state as it is, and
  \<open>analyzeStandardFit\<close> and \<open>generateRecommendations\<close> return what they return for the
  same context with no grade level. Both functions are total: no step of them throws.
\<close>

theorem unparseable_gradeLevel_no_bonus:
  assumes "parseInt g = None"
  shows "gradeLevelConsiderations s (c\<lparr>gradeLevel := Some g\<rparr>) r = r \<and>
         analyzeStandardFit s (c\<lparr>gradeLevel := Some g\<rparr>) =
           analyzeStandardFit s (c\<lparr>gradeLevel := None\<rparr>) \<and>
         generateRecommendations (c\<lparr>gradeLevel := Some g\<rparr>) =
           generateRecommendations (c\<lparr>gradeLevel := None\<rparr>)"
  using assms
  by (simp add: generateRecommendations_eq analyzeStandardFit_unparseable
      gradeLevelConsiderations_unparseable)

theorem unparseable_gradeLevel_no_bonus_witness:
  "parseInt ''abc'' = None \<and>
   analyzeStandardFit ncert (exampleIndia\<lparr>gradeLevel := Some ''abc''\<rparr>) =
     analyzeStandardFit ncert (exampleIndia\<lparr>gradeLevel := None\<rparr>) \<and>
   generateRecommendations (exampleIndia\<lparr>gradeLevel := Some ''abc''\<rparr>) =
     generateRecommendations (exampleIndia\<lparr>gradeLevel := None\<rparr>)"
  using unparseable_gradeLevel_no_bonus [OF parseInt_abc, of ncert exampleIndia] parseInt_abc
  by simp

section \<open>The analytics\<close>

lemma foldl_countCategory_nonempty:
  "foldl (\<lambda>acc rec. countCategory (categoryOf rec) acc) acc0 (x # xs) \<noteq> []"
proof (induction xs arbitrary: acc0 x)
  case Nil
  then show ?case by (cases acc0) (auto split: if_splits)
next
  case (Cons y ys)
  show ?case using Cons [of "countCategory (categoryOf x) acc0" y] by simp
qed

lemma foldl_confidence:
  "foldl (\<lambda>acc rec. acc + confidence rec) a xs = a + sum_list (map confidence xs)"
  by (induction xs arbitrary: a) simp_all

text \<open>On a list that is not empty the analytics are returned, with the mean.\<close>

lemma generateAnalytics_mean:
  assumes "recs \<noteq> []"
  shows "\<exists>a. generateAnalytics recs = Inr a \<and>
     averageConfidence a = Some (of_int (sum_list (map confidence recs)) / of_nat (length recs))"
proof -
  obtain x xs where recs: "recs = x # xs" using assms by (cases recs) auto
  obtain e es where "foldl (\<lambda>acc rec. countCategory (categoryOf rec) acc) [] recs = e # es"
    using foldl_countCategory_nonempty [of "[]" x xs] recs
    by (cases "foldl (\<lambda>acc rec. countCategory (categoryOf rec) acc) [] recs") auto
  then show ?thesis
    using assms by (simp add: generateAnalytics_def Let_def average_def foldl_confidence)
qed

lemma generateAnalytics_throws_iff: "(\<exists>e. generateAnalytics recs = Inl e) \<longleftrightarrow> recs = []"
proof (cases recs)
  case Nil
  then show ?thesis by (simp add: generateAnalytics_def)
next
  case (Cons x xs)
  then show ?thesis
    using foldl_countCategory_nonempty [of "[]" x xs]
    by (auto simp: generateAnalytics_def Let_def split: list.split)
qed


section \<open>The hook never analyses an empty list\<close>

lemma confidence_blocks_mono:
  "confidence r \<le> confidence (schoolTypeAlignment s c r)"
  "confidence r \<le> confidence (languageAlignment s c r)"
  "confidence r \<le> confidence (gradeLevelConsiderations s c r)"
  "confidence r \<le> confidence (teachingExperienceFactor s c r)"
  "confidence r \<le> confidence (resourceAvailabilityFactor s c r)"
  by (auto simp add: resourceAvailabilityFactor_def Let_def teachingExperienceFactor_def
      gradeLevelConsiderations_def languageAlignment_def schoolTypeAlignment_def
      split: option.split SchoolType.split Language.split)

lemma accumulatedFit_ge_geographic:
  "confidence (geographicAlignment s c (initialFit s)) \<le> confidence (accumulatedFit s c)"
  unfolding accumulatedFit_def
  by (meson confidence_blocks_mono order_trans)

lemma catalog_regions:
  "region ncert = National" "region ib = International"
  "ncert \<in> set allStandards" "ib \<in> set allStandards"
  by (simp_all add: ncert_def ib_def allStandards_def INDIAN_CURRICULUM_STANDARDS_def
      INTERNATIONAL_STANDARDS_def)

lemma some_standard_passes:
  "\<exists>s \<in> set allStandards. 30 \<le> confidence (analyzeStandardFit s c)"
proof (cases "includes_str (toLowerCase (location c)) ''india'' \<or> location c = ''in''")
  case True
  then have "confidence (geographicAlignment ncert c (initialFit ncert)) = 35"
    by (simp add: geographicAlignment_def initialFit_def catalog_regions)
  then have "30 \<le> confidence (analyzeStandardFit ncert c)"
    using accumulatedFit_ge_geographic [of ncert c] by (simp add: analyzeStandardFit_def Let_def)
  then show ?thesis using catalog_regions by blast
next
  case False
  then have "confidence (geographicAlignment ib c (initialFit ib)) = 30"
    by (simp add: geographicAlignment_def initialFit_def catalog_regions)
  then have "30 \<le> confidence (analyzeStandardFit ib c)"
    using accumulatedFit_ge_geographic [of ib c] by (simp add: analyzeStandardFit_def Let_def)
  then show ?thesis using catalog_regions by blast
qed

lemma generateRecommendations_nonempty: "generateRecommendations c \<noteq> []"
proof -
  obtain s where "s \<in> set allStandards" "30 \<le> confidence (analyzeStandardFit s c)"
    using some_standard_passes by blast
  then have "analyzeStandardFit s c \<in> set (generateRecommendations c)"
    by (simp add: set_generateRecommendations)
  then show ?thesis by auto
qed

lemma runAnalysis_no_error: "snd (runAnalysis st c) = None"
proof -
  have "\<not> (\<exists>e. generateAnalytics (generateRecommendations c) = Inl e)"
    using generateAnalytics_throws_iff generateRecommendations_nonempty by blast
  then show ?thesis
    by (auto simp: runAnalysis_def Let_def split: sum.split list.split)
qed

section \<open>Looking up the reasons\<close>

lemma reasons_blocks:
  "reasons (geographicAlignment s c r) = reasons r @ blockReasons geographicAlignment s c"
  "reasons (schoolTypeAlignment s c r) = reasons r @ blockReasons schoolTypeAlignment s c"
  "reasons (languageAlignment s c r) = reasons r @ blockReasons languageAlignment s c"
  "reasons (gradeLevelConsiderations s c r) = reasons r @ blockReasons gradeLevelConsiderations s c"
  "reasons (teachingExperienceFactor s c r) = reasons r @ blockReasons teachingExperienceFactor s c"
  "reasons (resourceAvailabilityFactor s c r) =
     reasons r @ blockReasons resourceAvailabilityFactor s c"
  by (auto simp add: blockReasons_def initialFit_def resourceAvailabilityFactor_def Let_def
      teachingExperienceFactor_def gradeLevelConsiderations_def languageAlignment_def
      schoolTypeAlignment_def geographicAlignment_def
      split: option.split SchoolType.split Language.split)

lemma reasons_in_block_order:
  "reasons (analyzeStandardFit s c) =
     blockReasons geographicAlignment s c @ blockReasons schoolTypeAlignment s c @
     blockReasons languageAlignment s c @ blockReasons gradeLevelConsiderations s c @
     blockReasons teachingExperienceFactor s c @ blockReasons resourceAvailabilityFactor s c"
  by (simp add: analyzeStandardFit_def Let_def accumulatedFit_def reasons_blocks)
     (simp add: initialFit_def)

lemma recommendations_runAnalysis:
  "recommendations (fst (runAnalysis st c)) = generateRecommendations c"
  by (simp add: runAnalysis_def Let_def split: sum.split list.split)

lemma distinct_catalog_ids: "distinct (map id_std allStandards)"
  by code_simp

lemma catalog_id_inj:
  "s \<in> set allStandards \<Longrightarrow> t \<in> set allStandards \<Longrightarrow> id_std s = id_std t \<Longrightarrow> s = t"
  using distinct_catalog_ids by (meson distinct_map inj_onD)

lemma find_in_generateRecommendations:
  assumes "r \<in> set (generateRecommendations c)"
  shows "find (\<lambda>x. id_std (standard x) = id_std (standard r)) (generateRecommendations c) = Some r"
proof -
  let ?P = "\<lambda>x. id_std (standard x) = id_std (standard r)"
  have "find ?P (generateRecommendations c) \<noteq> None"
    using assms by (auto simp: find_None_iff)
  then obtain x where x: "find ?P (generateRecommendations c) = Some x" by auto
  then have xin: "x \<in> set (generateRecommendations c)" and xid: "?P x"
    by (auto simp: find_Some_iff)
  from xin obtain s where s: "s \<in> set allStandards" "x = analyzeStandardFit s c"
    by (auto simp: set_generateRecommendations)
  from assms obtain t where t: "t \<in> set allStandards" "r = analyzeStandardFit t c"
    by (auto simp: set_generateRecommendations)
  have "id_std s = id_std t" using xid s t by (simp add: standard_analyzeStandardFit)
  then have "s = t" using s t catalog_id_inj by blast
  then show ?thesis using x s t by simp
qed

text \<open>
  C6. After \<open>runAnalysis\<close> has stored a result set, \<open>getRecommendationReasoning\<close> on
  the id of a standard in that set returns the reasons \<open>analyzeStandardFit\<close> gave for
  that standard, which are the reasons of the geographic, school-type, language,
  grade, experience and resource blocks in this order; on an id that is not in the
  set it returns the empty list.
\<close>

theorem getRecommendationReasoning_reasons_in_order:
  "(\<forall>r \<in> set (recommendations (fst (runAnalysis st c))).
      getRecommendationReasoning (fst (runAnalysis st c)) (id_std (standard r)) =
        reasons (analyzeStandardFit (standard r) c) \<and>
      reasons (analyzeStandardFit (standard r) c) =
        blockReasons geographicAlignment (standard r) c @
        blockReasons schoolTypeAlignment (standard r) c @
        blockReasons languageAlignment (standard r) c @
        blockReasons gradeLevelConsiderations (standard r) c @
        blockReasons teachingExperienceFactor (standard r) c @
        blockReasons resourceAvailabilityFactor (standard r) c) \<and>
   (standardId \<notin> (\<lambda>r. id_std (standard r)) ` set (recommendations (fst (runAnalysis st c))) \<longrightarrow>
      getRecommendationReasoning (fst (runAnalysis st c)) standardId = [])"
proof (intro conjI ballI impI)
  fix r assume r: "r \<in> set (recommendations (fst (runAnalysis st c)))"
  then have rin: "r \<in> set (generateRecommendations c)" by (simp add: recommendations_runAnalysis)
  then obtain s where "r = analyzeStandardFit s c" by (auto simp: set_generateRecommendations)
  then have eq: "analyzeStandardFit (standard r) c = r" by (simp add: standard_analyzeStandardFit)
  show "getRecommendationReasoning (fst (runAnalysis st c)) (id_std (standard r)) =
        reasons (analyzeStandardFit (standard r) c)"
    using find_in_generateRecommendations [OF rin] eq
    by (simp add: getRecommendationReasoning_def recommendations_runAnalysis)
  show "reasons (analyzeStandardFit (standard r) c) =
        blockReasons geographicAlignment (standard r) c @
        blockReasons schoolTypeAlignment (standard r) c @
        blockReasons languageAlignment (standard r) c @
        blockReasons gradeLevelConsiderations (standard r) c @
        blockReasons teachingExperienceFactor (standard r) c @
        blockReasons resourceAvailabilityFactor (standard r) c"
    by (rule reasons_in_block_order)
next
  assume "standardId \<notin> (\<lambda>r. id_std (standard r)) ` set (recommendations (fst (runAnalysis st c)))"
  then have "find (\<lambda>r. id_std (standard r) = standardId)
               (recommendations (fst (runAnalysis st c))) = None"
    by (auto simp: find_None_iff)
  then show "getRecommendationReasoning (fst (runAnalysis st c)) standardId = []"
    by (simp add: getRecommendationReasoning_def)
qed

lemma exampleIndia_ids:
  "map (\<lambda>r. id_std (standard r)) (generateRecommendations exampleIndia) = [''ncert'', ''cbse'', ''icse'']"
  by code_simp

lemma exampleIndia_ncert_reasons:
  "reasons (analyzeStandardFit ncert exampleIndia) =
     [''Designed specifically for Indian educational ecosystem'',
      ''NCERT is the official framework for government schools'',
      ''Strong Hindi language support and cultural integration'',
      ''NCERT provides excellent foundation for primary education'']"
  by code_simp

lemma id_ncert: "id_std ncert = ''ncert''" by (simp add: ncert_def)

text \<open>
  From the initial state and the context \<open>exampleIndia\<close>: ncert is in the stored set and
  its four reasons come back in block order; ib is not, and the empty list comes back.
\<close>

theorem getRecommendationReasoning_reasons_in_order_witness:
  "analyzeStandardFit ncert exampleIndia \<in> set (recommendations (fst (runAnalysis initialState exampleIndia))) \<and>
   getRecommendationReasoning (fst (runAnalysis initialState exampleIndia)) ''ncert'' =
     [''Designed specifically for Indian educational ecosystem'',
      ''NCERT is the official framework for government schools'',
      ''Strong Hindi language support and cultural integration'',
      ''NCERT provides excellent foundation for primary education''] \<and>
   ''ib'' \<notin> (\<lambda>r. id_std (standard r)) ` set (recommendations (fst (runAnalysis initialState exampleIndia))) \<and>
   getRecommendationReasoning (fst (runAnalysis initialState exampleIndia)) ''ib'' = []"
proof -
  let ?st = "fst (runAnalysis initialState exampleIndia)"
  have recs: "recommendations ?st = generateRecommendations exampleIndia"
    by (rule recommendations_runAnalysis)
  have mem: "analyzeStandardFit ncert exampleIndia \<in> set (recommendations ?st)"
    by (simp add: recs generateRecommendations_exampleIndia)
  have ids: "(\<lambda>r. id_std (standard r)) ` set (recommendations ?st) = set [''ncert'', ''cbse'', ''icse'']"
    unfolding recs exampleIndia_ids [symmetric] by simp
  have absent: "''ib'' \<notin> (\<lambda>r. id_std (standard r)) ` set (recommendations ?st)"
    unfolding ids by simp
  note main = getRecommendationReasoning_reasons_in_order [of initialState exampleIndia "''ib''"]
  from main mem have "getRecommendationReasoning ?st (id_std (standard (analyzeStandardFit ncert exampleIndia))) =
        reasons (analyzeStandardFit (standard (analyzeStandardFit ncert exampleIndia)) exampleIndia)"
    by blast
  then have a: "getRecommendationReasoning ?st ''ncert'' = reasons (analyzeStandardFit ncert exampleIndia)"
    by (simp add: standard_analyzeStandardFit id_ncert)
  from main absent have b: "getRecommendationReasoning ?st ''ib'' = []" by blast
  show ?thesis using mem a b absent by (simp add: exampleIndia_ncert_reasons)
qed

section \<open>The selector\<close>

lemma priorityOrder_inj: "priorityOrder p = priorityOrder q \<longleftrightarrow> p = q"
  by (cases p; cases q) (simp_all add: priorityOrder_def)

lemma compareByPriority_key: "compareByPriority a b \<le> 0 \<longleftrightarrow> selectorKey a \<le> selectorKey b"
  by (auto simp: compareByPriority_def selectorKey_def priorityOrder_inj)

lemma foldl_pushIfIncluded:
  "foldl (pushIfIncluded p) acc stds =
     acc @ map (\<lambda>r. r\<lparr> confidence := min (confidence r) 100 \<rparr>)
             (filter (\<lambda>r. 20 \<le> confidence r) (map (\<lambda>s. scoreStandard s p) stds))"
  by (induction stds arbitrary: acc) (simp_all add: pushIfIncluded_def Let_def)

lemma generateRecommendations_sel_eq:
  "generateRecommendations_sel p =
     sort_key selectorKey
       (map (\<lambda>r. r\<lparr> confidence := min (confidence r) 100 \<rparr>)
          (filter (\<lambda>r. 20 \<le> confidence r) (map (\<lambda>s. scoreStandard s p) allStandards)))"
  by (simp add: generateRecommendations_sel_def Let_def foldl_pushIfIncluded
      Array_sort_sort_key [of compareByPriority selectorKey, OF compareByPriority_key])

lemma generateRecommendations_sel_sorted:
  "sorted_wrt tierThenConfidence (generateRecommendations_sel p)"
proof -
  have "sorted (map selectorKey (generateRecommendations_sel p))"
    unfolding generateRecommendations_sel_eq by (rule sorted_sort_key)
  then have "sorted_wrt (\<lambda>a b. selectorKey a \<le> selectorKey b) (generateRecommendations_sel p)"
    by (simp add: sorted_map)
  then show ?thesis
    by (rule sorted_wrt_mono_rel [rotated])
       (auto simp: selectorKey_def tierThenConfidence_def priorityOrder_inj)
qed

lemma set_generateRecommendations_sel:
  "set (generateRecommendations_sel p) =
     (\<lambda>s. (scoreStandard s p)\<lparr> confidence := min (confidence (scoreStandard s p)) 100 \<rparr>) `
       {s \<in> set allStandards. 20 \<le> confidence (scoreStandard s p)}"
  by (auto simp: generateRecommendations_sel_eq)

lemma set_generateRecommendations_image:
  "set (generateRecommendations c) =
     (\<lambda>s. analyzeStandardFit s c) ` {s \<in> set allStandards. 30 \<le> confidence (analyzeStandardFit s c)}"
  by (auto simp: set_generateRecommendations)

lemma exampleExpert_scores:
  "map (\<lambda>s. (id_std s, confidence (analyzeStandardFit s exampleExpert))) allStandards =
     [(''ncert'', 80), (''cbse'', 70), (''icse'', 55), (''ib'', 25), (''cambridge'', 25),
      (''common-core'', 25)]"
  by code_simp

lemma exampleExpert_output:
  "map (\<lambda>r. (id_std (standard r), confidence r)) (generateRecommendations exampleExpert) =
     [(''ncert'', 80), (''cbse'', 70), (''icse'', 55)]"
  by code_simp

lemma defaultProps_output:
  "map (\<lambda>r. (id_std (standard r), confidence r)) (generateRecommendations_sel defaultProps) =
     [(''ncert'', 70), (''cbse'', 40), (''icse'', 40), (''ib'', 20), (''cambridge'', 20),
      (''common-core'', 20)]"
  by code_simp

text \<open>
  C8. The hook keeps a scored result only when its confidence is at least 30, the
  selector only when it is at least 20, and the two floors differ: at the context
  \<open>exampleExpert\<close> the hook drops the three international standards, scored 25, while
  at its default props the selector keeps them, scored 20.
\<close>

theorem inclusion_floors_30_and_20:
  "(\<forall>r \<in> set (generateRecommendations c). confidence r \<ge> 30) \<and>
   set (generateRecommendations c) =
     (\<lambda>s. analyzeStandardFit s c) `
       {s \<in> set allStandards. confidence (analyzeStandardFit s c) \<ge> 30} \<and>
   (\<forall>r \<in> set (generateRecommendations_sel p). confidence r \<ge> 20) \<and>
   set (generateRecommendations_sel p) =
     (\<lambda>s. (scoreStandard s p)\<lparr> confidence := min (confidence (scoreStandard s p)) 100 \<rparr>) `
       {s \<in> set allStandards. confidence (scoreStandard s p) \<ge> 20} \<and>
   map (\<lambda>s. (id_std s, confidence (analyzeStandardFit s exampleExpert))) allStandards =
     [(''ncert'', 80), (''cbse'', 70), (''icse'', 55), (''ib'', 25), (''cambridge'', 25),
      (''common-core'', 25)] \<and>
   map (\<lambda>r. (id_std (standard r), confidence r)) (generateRecommendations exampleExpert) =
     [(''ncert'', 80), (''cbse'', 70), (''icse'', 55)] \<and>
   map (\<lambda>r. (id_std (standard r), confidence r)) (generateRecommendations_sel defaultProps) =
     [(''ncert'', 70), (''cbse'', 40), (''icse'', 40), (''ib'', 20), (''cambridge'', 20),
      (''common-core'', 20)]"
proof (intro conjI)
  show "\<forall>r \<in> set (generateRecommendations c). confidence r \<ge> 30"
    by (simp add: set_generateRecommendations)
  show "set (generateRecommendations c) =
     (\<lambda>s. analyzeStandardFit s c) `
       {s \<in> set allStandards. confidence (analyzeStandardFit s c) \<ge> 30}"
    by (rule set_generateRecommendations_image)
  show "\<forall>r \<in> set (generateRecommendations_sel p). confidence r \<ge> 20"
    by (auto simp: set_generateRecommendations_sel)
  show "set (generateRecommendations_sel p) =
     (\<lambda>s. (scoreStandard s p)\<lparr> confidence := min (confidence (scoreStandard s p)) 100 \<rparr>) `
       {s \<in> set allStandards. confidence (scoreStandard s p) \<ge> 20}"
    by (rule set_generateRecommendations_sel)
qed (rule exampleExpert_scores exampleExpert_output defaultProps_output)+

lemma generateRecommendations_sel_defaultProps:
  "generateRecommendations_sel defaultProps =
     map (\<lambda>s. (scoreStandard s defaultProps)\<lparr> confidence := min (confidence (scoreStandard s defaultProps)) 100 \<rparr>) allStandards"
  by code_simp

lemma generateRecommendations_exampleExpert:
  "generateRecommendations exampleExpert =
     [analyzeStandardFit ncert exampleExpert, analyzeStandardFit cbse exampleExpert,
      analyzeStandardFit icse exampleExpert]"
  by code_simp

lemma ib_defaultProps: "confidence (scoreStandard ib defaultProps) = 20"
  by code_simp

theorem inclusion_floors_30_and_20_witness:
  "analyzeStandardFit ncert exampleExpert \<in> set (generateRecommendations exampleExpert) \<and>
   confidence (analyzeStandardFit ncert exampleExpert) \<ge> 30 \<and>
   (scoreStandard ib defaultProps)\<lparr> confidence := 20 \<rparr> \<in> set (generateRecommendations_sel defaultProps) \<and>
   confidence ((scoreStandard ib defaultProps)\<lparr> confidence := 20 \<rparr>) \<ge> 20"
proof -
  have a: "analyzeStandardFit ncert exampleExpert \<in> set (generateRecommendations exampleExpert)"
    by (simp add: generateRecommendations_exampleExpert)
  have b: "(scoreStandard ib defaultProps)\<lparr> confidence := 20 \<rparr> \<in> set (generateRecommendations_sel defaultProps)"
    by (simp add: generateRecommendations_sel_defaultProps allStandards_def
        INDIAN_CURRICULUM_STANDARDS_def INTERNATIONAL_STANDARDS_def ib_defaultProps)
  show ?thesis using inclusion_floors_30_and_20 [of exampleExpert defaultProps] a b by blast
qed

lemma exampleMixed_output:
  "map (\<lambda>r. (id_std (standard r), priority r, confidence r)) (generateRecommendations_sel exampleMixed) =
     [(''ncert'', Primary, 40), (''cbse'', Primary, 40), (''icse'', Primary, 40),
      (''ib'', Secondary, 50), (''cambridge'', Secondary, 50), (''common-core'', Secondary, 20)]"
  by code_simp

text \<open>
  C10. The selector orders its recommendations by priority tier first, primary before
  secondary before alternative, and by descending confidence only inside a tier. Its
  comparator puts a primary result before a secondary one whatever their confidences,
  where the comparator of the hook decides by the difference of the confidences less
  50. For an international school in India the primary results, with confidence 40,
  stand before the secondary ones with confidence 50.
\<close>

theorem generateRecommendations_sel_tier_first:
  "sorted_wrt tierThenConfidence (generateRecommendations_sel p) \<and>
   map priorityOrder [Primary, Secondary, Alternative] = [3, 2, 1] \<and>
   compareByPriority (a\<lparr> priority := Primary \<rparr>) (b\<lparr> priority := Secondary \<rparr>) = - 1 \<and>
   compareByScore (x\<lparr> priority := Primary \<rparr>) (y\<lparr> priority := Secondary \<rparr>) =
     confidence y - confidence x - 50 \<and>
   map (\<lambda>r. (id_std (standard r), priority r, confidence r)) (generateRecommendations_sel exampleMixed) =
     [(''ncert'', Primary, 40), (''cbse'', Primary, 40), (''icse'', Primary, 40),
      (''ib'', Secondary, 50), (''cambridge'', Secondary, 50), (''common-core'', Secondary, 20)]"
proof (intro conjI)
  show "sorted_wrt tierThenConfidence (generateRecommendations_sel p)"
    by (rule generateRecommendations_sel_sorted)
  show "map priorityOrder [Primary, Secondary, Alternative] = [3, 2, 1]"
    by (simp add: priorityOrder_def)
  show "compareByPriority (a\<lparr> priority := Primary \<rparr>) (b\<lparr> priority := Secondary \<rparr>) = - 1"
    by (simp add: compareByPriority_def priorityOrder_def)
  show "compareByScore (x\<lparr> priority := Primary \<rparr>) (y\<lparr> priority := Secondary \<rparr>) =
     confidence y - confidence x - 50"
    by (simp add: compareByScore_def priorityWeight_def Let_def)
qed (rule exampleMixed_output)

end
